theory Spec2Isabelle
  imports Main
begin

section \<open>JavaScript string helpers\<close>

text \<open>
  Strings are lists of characters, and the model covers ASCII text: the tokens the
  program handles (squares, promotion letters, FEN text) are ASCII, and there one
  \<^typ>\<open>char\<close> stands for one UTF-16 code unit. \<open>isAscii\<close> says that a string is in this
  range; what the model computes on other strings is not claimed of the program.
\<close>

definition isAscii :: "string \<Rightarrow> bool" where
  "isAscii s = list_all (\<lambda>c. (of_char c :: nat) < 128) s"

text \<open>\<^verbatim>\<open>s.substring(a, b)\<close>: the arguments are swapped when \<open>a > b\<close> and clamped to the
  length of the string.\<close>

definition substring :: "string \<Rightarrow> nat \<Rightarrow> nat \<Rightarrow> string" where
  "substring s a b = (let lo = min a b; hi = max a b in take (hi - lo) (drop lo s))"

text \<open>\<^verbatim>\<open>s.substring(a)\<close>: everything from index \<open>a\<close> on.\<close>

definition substringFrom :: "string \<Rightarrow> nat \<Rightarrow> string" where
  "substringFrom s a = drop a s"

text \<open>\<^verbatim>\<open>s.substr(a, n)\<close> for a non-negative start: \<open>n\<close> characters from index \<open>a\<close>.\<close>

definition substr :: "string \<Rightarrow> nat \<Rightarrow> nat \<Rightarrow> string" where
  "substr s a n = take n (drop a s)"

text \<open>\<^verbatim>\<open>toUpperCase\<close> on ASCII text: the letters a to z move to A to Z, every other
  ASCII character stays. Outside ASCII JavaScript maps further letters and can lengthen
  the string; the model leaves such characters as they are, and the statements about the
  upper-cased part of a display form are made for ASCII input only.\<close>

definition toUpperChar :: "char \<Rightarrow> char" where
  "toUpperChar c =
     (let n = (of_char c :: nat) in if 97 \<le> n \<and> n \<le> 122 then char_of (n - 32) else c)"

definition toUpperCase :: "string \<Rightarrow> string" where
  "toUpperCase s = map toUpperChar s"

text \<open>\<^verbatim>\<open>s.split(' ')\<close>: the pieces between single spaces; the empty string gives one empty
  piece, as in JavaScript.\<close>

fun splitAcc :: "string \<Rightarrow> string \<Rightarrow> string list" where
  "splitAcc acc [] = [rev acc]"
| "splitAcc acc (c # cs) =
     (if c = CHR '' '' then rev acc # splitAcc [] cs else splitAcc (c # acc) cs)"

definition splitSpace :: "string \<Rightarrow> string list" where
  "splitSpace s = splitAcc [] s"

text \<open>\<^verbatim>\<open>state.moves.split(' ').filter(m => m)\<close>: the non-empty tokens of the moves string.\<close>

definition moveTokens :: "string \<Rightarrow> string list" where
  "moveTokens s = filter (\<lambda>m. m \<noteq> []) (splitSpace s)"

section \<open>Move notation adapter\<close>

text \<open>
  \<^verbatim>\<open>uciToAlgebraic\<close>, as written in the game controller and, with the same body, in
  \<^verbatim>\<open>util.ts\<close> and \<^verbatim>\<open>view/board.ts\<close> (the move list of \<^verbatim>\<open>view/game.ts\<close> has a shorter
  variant of its own, which drops the promotion and is not modelled here):
  \<^verbatim>\<open>
  if (!uci || uci.length < 4) return '';
  const from = uci.substring(0, 2);
  const to = uci.substring(2, 4);
  const promotion = uci.length > 4 ? uci.substring(4) : '';
  let move = from + '-' + to;
  if (promotion) move += '=' + promotion.toUpperCase();
  return move;
  \<close>
\<close>

definition uciToAlgebraic :: "string \<Rightarrow> string" where
  "uciToAlgebraic uci =
     (if uci = [] \<or> length uci < 4 then []
      else
        let from = substring uci 0 2;
            to = substring uci 2 4;
            promotion = (if length uci > 4 then substringFrom uci 4 else []);
            move = from @ ''-'' @ to
        in if promotion \<noteq> [] then move @ ''='' @ toUpperCase promotion else move)"

datatype Color = White | Black

fun opposite :: "Color \<Rightarrow> Color" where
  "opposite White = Black"
| "opposite Black = White"

text \<open>\<^verbatim>\<open>getLastMove\<close> of \<^verbatim>\<open>util.ts\<close>: \<open>null\<close> for an empty list, else the last token, its
  display form and the colour given by the parity of the list's length.\<close>

record LastMoveInfo =
  uci :: string
  algebraic :: string
  color :: Color

definition getLastMove :: "string list \<Rightarrow> LastMoveInfo option" where
  "getLastMove mvs =
     (if length mvs = 0 then None
      else
        let lastUci = mvs ! (length mvs - 1);
            isWhiteMove = (length mvs mod 2 = 1)
        in Some \<lparr>uci = lastUci, algebraic = uciToAlgebraic lastUci,
                 color = (if isWhiteMove then White else Black)\<rparr>)"

section \<open>Visualization trainer\<close>

datatype VisualizationMode =
  standard | minimal | checkers | monochrome | invisible | memory | blindfold

record VisualizationSettings =
  mode :: VisualizationMode
  showMoves :: bool
  showTargets :: bool
  memoryTime :: "int option"

text \<open>
  What the trainer does to the outside: a subscribed callback called with a copy of the
  settings, a timer set (handle and delay) and a timer cleared. A callback is a handle
  (a number); it is taken to return normally and not to call back into the trainer, as
  the one the game controller subscribes (a redraw request) does.
\<close>

datatype TrainerEvent =
  CallbackCalled nat VisualizationSettings
| TimeoutSet nat int
| TimeoutCleared nat

text \<open>
  The trainer's fields, followed by the part of the browser it touches: the class list of
  the \<^verbatim>\<open>.cg-wrap\<close> element (\<open>None\<close> when the document has none), the next timer
  handle \<^verbatim>\<open>setTimeout\<close> will return (handles are positive, so a stored handle is truthy)
  and the trace of events so far.
\<close>

record VisualizationTrainer =
  currentMode :: VisualizationMode
  settings :: VisualizationSettings
  callbacks :: "nat list"
  memoryTimer :: "nat option"
  cgWrap :: "string set option"
  timerSeq :: nat
  events :: "TrainerEvent list"

definition newVisualizationTrainer :: "string set option \<Rightarrow> nat \<Rightarrow> VisualizationTrainer" where
  "newVisualizationTrainer wrap seq =
     \<lparr>currentMode = standard,
      settings = \<lparr>mode = standard, showMoves = True, showTargets = True,
                  memoryTime = Some 5000\<rparr>,
      callbacks = [], memoryTimer = None, cgWrap = wrap, timerSeq = seq, events = []\<rparr>"

fun modeName :: "VisualizationMode \<Rightarrow> string" where
  "modeName standard = ''standard''"
| "modeName minimal = ''minimal''"
| "modeName checkers = ''checkers''"
| "modeName monochrome = ''monochrome''"
| "modeName invisible = ''invisible''"
| "modeName memory = ''memory''"
| "modeName blindfold = ''blindfold''"

text \<open>Truthiness of the optional number \<^verbatim>\<open>settings.memoryTime\<close>: absent and 0 are falsy.\<close>

definition truthyTime :: "int option \<Rightarrow> bool" where
  "truthyTime t = (case t of None \<Rightarrow> False | Some n \<Rightarrow> n \<noteq> 0)"

definition getSettings :: "VisualizationTrainer \<Rightarrow> VisualizationSettings" where
  "getSettings t = settings t"

definition subscribe :: "nat \<Rightarrow> VisualizationTrainer \<Rightarrow> VisualizationTrainer" where
  "subscribe cb t = t\<lparr>callbacks := callbacks t @ [cb]\<rparr>"

definition unsubscribe :: "nat \<Rightarrow> VisualizationTrainer \<Rightarrow> VisualizationTrainer" where
  "unsubscribe cb t = t\<lparr>callbacks := filter (\<lambda>c. c \<noteq> cb) (callbacks t)\<rparr>"

definition notifyListeners :: "VisualizationTrainer \<Rightarrow> VisualizationTrainer" where
  "notifyListeners t =
     t\<lparr>events := events t @ map (\<lambda>cb. CallbackCalled cb (getSettings t)) (callbacks t)\<rparr>"

definition startMemoryTimer :: "VisualizationTrainer \<Rightarrow> VisualizationTrainer" where
  "startMemoryTimer t =
     (case memoryTime (settings t) of
        None \<Rightarrow> t
      | Some d \<Rightarrow>
          if d \<noteq> 0
          then t\<lparr>memoryTimer := Some (timerSeq t), timerSeq := Suc (timerSeq t),
                 events := events t @ [TimeoutSet (timerSeq t) d]\<rparr>
          else t)"

definition clearMemoryTimer :: "VisualizationTrainer \<Rightarrow> VisualizationTrainer" where
  "clearMemoryTimer t =
     (case memoryTimer t of
        None \<Rightarrow> t
      | Some h \<Rightarrow> t\<lparr>memoryTimer := None, events := events t @ [TimeoutCleared h]\<rparr>)"

definition vizClasses :: "string set" where
  "vizClasses =
     {''viz-standard'', ''viz-minimal'', ''viz-checkers'', ''viz-monochrome'',
      ''viz-invisible'', ''viz-memory'', ''viz-memory-hidden'', ''viz-blindfold''}"

text \<open>\<^verbatim>\<open>updateBoardMode(subMode?)\<close>; the absent argument is the empty string, which
  \<^verbatim>\<open>subMode || this.currentMode\<close> treats alike.\<close>

definition updateBoardMode :: "string \<Rightarrow> VisualizationTrainer \<Rightarrow> VisualizationTrainer" where
  "updateBoardMode subMode t =
     (case cgWrap t of
        None \<Rightarrow> t
      | Some cls \<Rightarrow>
          let cls1 = cls - vizClasses;
              modeClass = (if subMode \<noteq> [] then subMode else modeName (currentMode t));
              cls2 = insert (''viz-'' @ modeClass) cls1;
              cls3 = (if \<not> showMoves (settings t) then insert ''hide-moves'' cls2
                      else cls2 - {''hide-moves''});
              cls4 = (if \<not> showTargets (settings t) then insert ''hide-targets'' cls3
                      else cls3 - {''hide-targets''})
          in t\<lparr>cgWrap := Some cls4\<rparr>)"

definition setMode :: "VisualizationMode \<Rightarrow> VisualizationTrainer \<Rightarrow> VisualizationTrainer" where
  "setMode m t =
     (if currentMode t \<noteq> m then
        let t1 = t\<lparr>currentMode := m\<rparr>;
            t2 = t1\<lparr>settings := (settings t1)\<lparr>mode := m\<rparr>\<rparr>;
            t3 = clearMemoryTimer t2;
            t4 = notifyListeners t3;
            t5 = updateBoardMode [] t4
        in if m = memory \<and> truthyTime (memoryTime (settings t5)) then startMemoryTimer t5
           else t5
      else t)"

text \<open>\<^verbatim>\<open>Array.prototype.indexOf\<close>: the first index of the element, or -1.\<close>

fun indexOfFrom :: "nat \<Rightarrow> 'a list \<Rightarrow> 'a \<Rightarrow> int" where
  "indexOfFrom i [] x = - 1"
| "indexOfFrom i (y # ys) x = (if y = x then int i else indexOfFrom (Suc i) ys x)"

definition indexOf :: "'a list \<Rightarrow> 'a \<Rightarrow> int" where
  "indexOf xs x = indexOfFrom 0 xs x"

definition modes :: "VisualizationMode list" where
  "modes = [standard, minimal, checkers, monochrome, invisible, memory, blindfold]"

definition cycleMode :: "VisualizationTrainer \<Rightarrow> VisualizationTrainer" where
  "cycleMode t =
     (let currentIndex = indexOf modes (currentMode t);
          nextIndex = (currentIndex + 1) mod int (length modes)
      in setMode (modes ! nat nextIndex) t)"

definition toggleShowMoves :: "VisualizationTrainer \<Rightarrow> VisualizationTrainer" where
  "toggleShowMoves t =
     updateBoardMode []
       (notifyListeners (t\<lparr>settings := (settings t)\<lparr>showMoves := \<not> showMoves (settings t)\<rparr>\<rparr>))"

definition toggleShowTargets :: "VisualizationTrainer \<Rightarrow> VisualizationTrainer" where
  "toggleShowTargets t =
     updateBoardMode []
       (notifyListeners
          (t\<lparr>settings := (settings t)\<lparr>showTargets := \<not> showTargets (settings t)\<rparr>\<rparr>))"

text \<open>The calls made to subscribed callbacks, in order, read off a trace.\<close>

fun notified :: "TrainerEvent list \<Rightarrow> (nat \<times> VisualizationSettings) list" where
  "notified [] = []"
| "notified (CallbackCalled cb s # es) = (cb, s) # notified es"
| "notified (e # es) = notified es"

section \<open>Game records and stream messages\<close>

text \<open>
  The parts of the \<^verbatim>\<open>Game\<close> interface the controller reads. A player's identity is
  optional (a computer opponent has none); the game's \<^verbatim>\<open>id\<close> is the field \<open>gid\<close>.
\<close>

record GameState =
  moves :: string
  status :: string
  wtime :: int
  btime :: int

record Player =
  playerId :: "string option"
  name :: string

record Game =
  gid :: string
  initialFen :: string
  white :: Player
  black :: Player
  state :: GameState

text \<open>
  A stream message is dispatched on its \<^verbatim>\<open>type\<close> field: \<^verbatim>\<open>'gameFull'\<close> carries a game,
  \<^verbatim>\<open>'gameState'\<close> a state, and \<open>otherMsg ty\<close> is a message of any other type \<open>ty\<close>.
\<close>

datatype Msg = gameFull Game | gameState GameState | otherMsg string

section \<open>The rules engine, as the controller uses it\<close>

text \<open>
  The chess rules come from a library (\<^verbatim>\<open>chessops\<close>) that the controller calls and this
  development takes as a parameter: a record of the operations called. \<^verbatim>\<open>parseFen\<close> and
  \<^verbatim>\<open>Chess.fromSetup\<close> return a result that the controller unwraps, which throws on an
  error; \<^verbatim>\<open>parseUci\<close> returns \<^verbatim>\<open>undefined\<close> for a token it cannot read, and the
  controller hands whatever it returns to \<^verbatim>\<open>play\<close> (the \<^verbatim>\<open>!\<close> of the source does nothing
  at run time). The controller never asks the library whether a move is legal. \<^verbatim>\<open>play\<close>
  updates the position or throws; a call that throws is taken to leave the position as it
  was.
\<close>

datatype Exn = Thrown string

record ('s, 'p, 'm) Rules =
  defaultSetup :: 's
  parseFen :: "string \<Rightarrow> Exn + 's"
  fromSetup :: "'s \<Rightarrow> Exn + 'p"
  chessDefault :: 'p
  parseUci :: "string \<Rightarrow> 'm option"
  play :: "'p \<Rightarrow> 'm option \<Rightarrow> Exn + 'p"
  turn :: "'p \<Rightarrow> Color"
  makeFen :: "'p \<Rightarrow> string"
  isCheck :: "'p \<Rightarrow> bool"
  chessgroundDests :: "'p \<Rightarrow> (string \<times> string list) list"

section \<open>Game controller\<close>

text \<open>The displayed board (\<^verbatim>\<open>chessground\<close>): the fields the controller's configuration sets.\<close>

record CgState =
  orientation :: Color
  fen :: string
  cgLastMove :: "(string \<times> string) option"
  turnColor :: Color
  check :: bool
  movableFree :: bool
  movableColor :: "Color option"
  dests :: "(string \<times> string list) list"

text \<open>
  The controller's fields. \<open>ground\<close> is \<open>None\<close> until the view attaches a board. The stream
  and the redraw timer are handles that the modelled operations never read.
\<close>

record 'p GameCtrl =
  game :: Game
  pov :: Color
  chess :: 'p
  lastMove :: "(string \<times> string) option"
  lastUpdateAt :: nat
  ground :: "CgState option"
  lastMoveCount :: nat

text \<open>
  What the controller does to the outside: a move spoken (display form and side), a redraw
  request, a queued premove released, a POST to the command endpoint, an error logged to
  the console, the redraw timer started (its period) and the subscription to the
  visualization trainer.
\<close>

datatype Effect =
  Speak string Color
| Redraw
| PlayPremove
| Post string
| ConsoleError string
| SetInterval nat
| SubscribeTrainer

text \<open>The session: the identity of the logged-in user, if any, and whether the browser
  has \<^verbatim>\<open>speechSynthesis\<close>.\<close>

record Env =
  me :: "string option"
  speechSynthesis :: bool

text \<open>
  The outcome of an operation: the controller as the operation left it, the effects it
  made in order, and the exception it threw, if any. JavaScript undoes nothing when an
  exception is thrown, so the controller of a throwing outcome holds every assignment made
  before the throw.
\<close>

record 'p Outcome =
  ctrl :: "'p GameCtrl"
  effects :: "Effect list"
  thrown :: "Exn option"

definition speakMove :: "Env \<Rightarrow> string \<Rightarrow> Color \<Rightarrow> Effect list" where
  "speakMove env mv col = (if speechSynthesis env then [Speak mv col] else [])"

definition playing :: "'p GameCtrl \<Rightarrow> bool" where
  "playing c = (status (state (game c)) = ''started'')"

definition timeOf :: "'p GameCtrl \<Rightarrow> Color \<Rightarrow> int" where
  "timeOf c col = (case col of White \<Rightarrow> wtime (state (game c)) | Black \<Rightarrow> btime (state (game c)))"

definition chessgroundConfig :: "('s, 'p, 'm) Rules \<Rightarrow> 'p GameCtrl \<Rightarrow> CgState" where
  "chessgroundConfig R c =
     \<lparr>orientation = pov c,
      fen = makeFen R (chess c),
      cgLastMove = lastMove c,
      turnColor = turn R (chess c),
      check = isCheck R (chess c),
      movableFree = False,
      movableColor = (if playing c then Some (pov c) else None),
      dests = chessgroundDests R (chess c)\<rparr>"

definition setGround :: "CgState \<Rightarrow> 'p GameCtrl \<Rightarrow> 'p GameCtrl" where
  "setGround cg c = c\<lparr>ground := Some cg\<rparr>"

text \<open>The first two lines of \<^verbatim>\<open>onUpdate\<close>: the setup from \<^verbatim>\<open>initialFen\<close>, then the position
  from the setup, each unwrapped.\<close>

definition initialPosition :: "('s, 'p, 'm) Rules \<Rightarrow> string \<Rightarrow> Exn + 'p" where
  "initialPosition R f =
     (case (if f = ''startpos'' then Inr (defaultSetup R) else parseFen R f) of
        Inl e \<Rightarrow> Inl e
      | Inr setup \<Rightarrow> fromSetup R setup)"

text \<open>\<^verbatim>\<open>moves.forEach(uci => this.chess.play(parseUci(uci)!))\<close>: the position when the loop
  ends, and the exception that ended it, if one did.\<close>

fun playAll :: "('s, 'p, 'm) Rules \<Rightarrow> 'p \<Rightarrow> string list \<Rightarrow> 'p \<times> Exn option" where
  "playAll R p [] = (p, None)"
| "playAll R p (u # us) =
     (case play R p (parseUci R u) of
        Inl e \<Rightarrow> (p, Some e)
      | Inr p' \<Rightarrow> playAll R p' us)"

definition onUpdate :: "('s, 'p, 'm) Rules \<Rightarrow> Env \<Rightarrow> nat \<Rightarrow> 'p GameCtrl \<Rightarrow> 'p Outcome" where
  "onUpdate R env now c =
     (case initialPosition R (initialFen (game c)) of
        Inl e \<Rightarrow> \<lparr>ctrl = c, effects = [], thrown = Some e\<rparr>
      | Inr p0 \<Rightarrow>
          let c1 = c\<lparr>chess := p0\<rparr>;
              mvs = moveTokens (moves (state (game c1)));
              currentMoveCount = length mvs;
              isNew = (currentMoveCount > lastMoveCount c1);
              spoken =
                (if isNew
                 then speakMove env (uciToAlgebraic (mvs ! (length mvs - 1)))
                        (if currentMoveCount mod 2 = 1 then White else Black)
                 else []);
              c2 = (if isNew then c1\<lparr>lastMoveCount := currentMoveCount\<rparr> else c1)
          in (case playAll R p0 mvs of
               (p, Some e) \<Rightarrow> \<lparr>ctrl = c2\<lparr>chess := p\<rparr>, effects = spoken, thrown = Some e\<rparr>
             | (p, None) \<Rightarrow>
                 let c3 = c2\<lparr>chess := p,
                             lastMove :=
                               (if mvs = [] then None
                                else Some (substr (mvs ! (length mvs - 1)) 0 2,
                                           substr (mvs ! (length mvs - 1)) 2 2)),
                             lastUpdateAt := now\<rparr>;
                     c4 = (case ground c3 of
                             None \<Rightarrow> c3
                           | Some cg \<Rightarrow> c3\<lparr>ground := Some (chessgroundConfig R c3)\<rparr>);
                     premove =
                       (if turn R (chess c4) = pov c4 \<and> ground c4 \<noteq> None then [PlayPremove]
                        else [])
                 in \<lparr>ctrl = c4, effects = spoken @ premove, thrown = None\<rparr>))"

text \<open>
  The constructor: the field initialisers, the game and the point of view, the first
  \<^verbatim>\<open>onUpdate\<close>, then the redraw timer and the subscription. When \<^verbatim>\<open>onUpdate\<close> throws the
  constructor throws and the last two do not happen.
\<close>

definition newGameCtrl :: "('s, 'p, 'm) Rules \<Rightarrow> Env \<Rightarrow> nat \<Rightarrow> Game \<Rightarrow> 'p Outcome" where
  "newGameCtrl R env now g =
     (let c0 = \<lparr>game = g,
                pov = (if playerId (black g) = me env then Black else White),
                chess = chessDefault R,
                lastMove = None,
                lastUpdateAt = now,
                ground = None,
                lastMoveCount = 0\<rparr>;
          r = onUpdate R env now c0
      in case thrown r of
           Some e \<Rightarrow> r
         | None \<Rightarrow> r\<lparr>effects := effects r @ [SetInterval 100, SubscribeTrainer]\<rparr>)"

text \<open>\<^verbatim>\<open>handle\<close>: the message is stored before \<^verbatim>\<open>onUpdate\<close> runs, and the redraw is requested
  only when \<^verbatim>\<open>onUpdate\<close> returns.\<close>

definition afterUpdate :: "'p Outcome \<Rightarrow> 'p Outcome" where
  "afterUpdate r = (case thrown r of Some e \<Rightarrow> r | None \<Rightarrow> r\<lparr>effects := effects r @ [Redraw]\<rparr>)"

fun handle :: "('s, 'p, 'm) Rules \<Rightarrow> Env \<Rightarrow> nat \<Rightarrow> 'p GameCtrl \<Rightarrow> Msg \<Rightarrow> 'p Outcome" where
  "handle R env now c (gameFull g) = afterUpdate (onUpdate R env now (c\<lparr>game := g\<rparr>))"
| "handle R env now c (gameState s) =
     afterUpdate (onUpdate R env now (c\<lparr>game := (game c)\<lparr>state := s\<rparr>\<rparr>))"
| "handle R env now c (otherMsg ty) =
     \<lparr>ctrl = c, effects = [ConsoleError (''Unknown message type: '' @ ty)], thrown = None\<rparr>"

text \<open>\<^verbatim>\<open>userMove\<close> and \<^verbatim>\<open>resign\<close>: what each does up to the request it sends; the answer of
  the endpoint is not read.\<close>

definition userMove :: "string \<Rightarrow> string \<Rightarrow> 'p GameCtrl \<Rightarrow> 'p Outcome" where
  "userMove orig dest c =
     \<lparr>ctrl = (case ground c of
                None \<Rightarrow> c
              | Some cg \<Rightarrow> c\<lparr>ground := Some (cg\<lparr>turnColor := opposite (pov c)\<rparr>)\<rparr>),
      effects = [Post (''/api/board/game/'' @ gid (game c) @ ''/move/'' @ orig @ dest)],
      thrown = None\<rparr>"

definition resign :: "'p GameCtrl \<Rightarrow> 'p Outcome" where
  "resign c =
     \<lparr>ctrl = c,
      effects = [Post (''/api/board/game/'' @ gid (game c) @ ''/resign'')],
      thrown = None\<rparr>"

text \<open>The moves spoken, in order, read off a list of effects.\<close>

fun spokenMoves :: "Effect list \<Rightarrow> (string \<times> Color) list" where
  "spokenMoves [] = []"
| "spokenMoves (Speak mv col # es) = (mv, col) # spokenMoves es"
| "spokenMoves (e # es) = spokenMoves es"

text \<open>
  The stream handler of \<^verbatim>\<open>GameCtrl.open\<close> builds the controller from the first message and
  passes every later message to \<^verbatim>\<open>handle\<close> of that controller. \<open>feed\<close> is the controller
  after a list of messages, each with the time it is handled at, whether or not a call
  threw.
\<close>

definition feed ::
  "('s, 'p, 'm) Rules \<Rightarrow> Env \<Rightarrow> 'p GameCtrl \<Rightarrow> (nat \<times> Msg) list \<Rightarrow> 'p GameCtrl" where
  "feed R env c ms = foldl (\<lambda>c' (now, msg). ctrl (handle R env now c' msg)) c ms"

section \<open>A small rules engine\<close>

text \<open>
  An instance of the rules-engine parameter, used to run the controller on concrete
  streams. A position is the side to move and the moves played so far. A FEN is read for
  its side-to-move field only; a token is a move when it has four or five characters.
  As the library's \<^verbatim>\<open>play\<close> does, \<open>demoPlay\<close> checks no legality: it throws when it is
  handed no move, and applies every move it is handed, passing the turn and recording the
  move.
\<close>

type_synonym DemoPos = "Color \<times> string list"

definition demoParseFen :: "string \<Rightarrow> Exn + Color" where
  "demoParseFen f =
     (case splitSpace f of
        b # t # rest \<Rightarrow>
          (if t = ''w'' then Inr White
           else if t = ''b'' then Inr Black
           else Inl (Thrown ''FenError''))
      | _ \<Rightarrow> Inl (Thrown ''FenError''))"

definition demoParseUci :: "string \<Rightarrow> string option" where
  "demoParseUci t = (if length t = 4 \<or> length t = 5 then Some t else None)"

fun demoPlay :: "DemoPos \<Rightarrow> string option \<Rightarrow> Exn + DemoPos" where
  "demoPlay p None = Inl (Thrown ''TypeError'')"
| "demoPlay p (Some m) = Inr (opposite (fst p), snd p @ [m])"

definition demoRules :: "(Color, DemoPos, string) Rules" where
  "demoRules =
     \<lparr>defaultSetup = White,
      parseFen = demoParseFen,
      fromSetup = (\<lambda>s. Inr (s, [])),
      chessDefault = (White, []),
      parseUci = demoParseUci,
      play = demoPlay,
      turn = fst,
      makeFen = (\<lambda>p. concat (snd p)),
      isCheck = (\<lambda>p. False),
      chessgroundDests = (\<lambda>p. [])\<rparr>"

text \<open>A session with speech, a user \<open>alice\<close> playing White against \<open>bob\<close>, and games that
  differ in their initial position and history.\<close>

definition demoEnv :: Env where
  "demoEnv = \<lparr>me = Some ''alice'', speechSynthesis = True\<rparr>"

definition demoGame :: "string \<Rightarrow> string \<Rightarrow> Game" where
  "demoGame f ms =
     \<lparr>gid = ''abc123'', initialFen = f,
      white = \<lparr>playerId = Some ''alice'', name = ''Alice''\<rparr>,
      black = \<lparr>playerId = Some ''bob'', name = ''Bob''\<rparr>,
      state = \<lparr>moves = ms, status = ''started'', wtime = 60000, btime = 60000\<rparr>\<rparr>"

definition demoState :: "string \<Rightarrow> GameState" where
  "demoState ms = \<lparr>moves = ms, status = ''started'', wtime = 59000, btime = 58000\<rparr>"

text \<open>The controller opened on a game from the standard position with the given history,
  a FEN with Black to move, and a controller that is about to process a first move of a
  game starting from it.\<close>

definition demoCtrl :: "string \<Rightarrow> DemoPos GameCtrl" where
  "demoCtrl ms = ctrl (newGameCtrl demoRules demoEnv 0 (demoGame ''startpos'' ms))"

definition blackFirstFen :: string where
  "blackFirstFen = ''rnbqkbnr/pppppppp/8/8/8/8/PPPPPPPP/RNBQKBNR b KQkq - 0 1''"

definition blackFirstCtrl :: "DemoPos GameCtrl" where
  "blackFirstCtrl = (demoCtrl [])\<lparr>game := demoGame blackFirstFen ''e7e5''\<rparr>"

text \<open>A trainer in its initial state with two subscribers, 3 and 7, and a board in the
  document.\<close>

definition demoTrainer :: VisualizationTrainer where
  "demoTrainer = subscribe 7 (subscribe 3 (newVisualizationTrainer (Some {}) 1))"

section \<open>Properties of the move notation adapter\<close>

lemma toUpperCase_q: "toUpperCase ''q'' = ''Q''"
  by code_simp

lemma uciToAlgebraic_shape:
  "uciToAlgebraic u =
     (if length u < 4 then []
      else take 2 u @ ''-'' @ take 2 (drop 2 u) @
           (if length u > 4 then ''='' @ toUpperCase (drop 4 u) else []))"
  by (auto simp add: uciToAlgebraic_def substring_def substringFrom_def Let_def)

lemma uciToAlgebraic_empty_iff: "(uciToAlgebraic u = []) = (length u < 4)"
  by (auto simp add: uciToAlgebraic_def substring_def substringFrom_def Let_def)

lemma uciToAlgebraic_examples:
  "uciToAlgebraic ''e2e4'' = ''e2-e4'' \<and> uciToAlgebraic ''e7e8q'' = ''e7-e8=Q''
     \<and> uciToAlgebraic '''' = ''''"
  by (simp add: uciToAlgebraic_def substring_def substringFrom_def Let_def toUpperCase_q)

text \<open>
  A token of six characters is not a move token (those have four or five), yet its display
  form is not empty: the conversion looks at the length only, and only to tell apart
  inputs shorter than four characters.
\<close>

theorem uciToAlgebraic_malformed_nonempty:
  "length ''e2e4xx'' = 6 \<and> uciToAlgebraic ''e2e4xx'' = ''e2-e4=XX''
     \<and> uciToAlgebraic ''e2e4xx'' \<noteq> []"
  by code_simp

lemma toUpperChar_table:
  "toUpperChar c =
     (case map_of (zip ''abcdefghijklmnopqrstuvwxyz'' ''ABCDEFGHIJKLMNOPQRSTUVWXYZ'') c of
        None \<Rightarrow> c | Some d \<Rightarrow> d)"
  by (cases c) (simp add: toUpperChar_def Let_def char_of_def bit_Suc_0_iff)

text \<open>
  C7, as the code has it. On the three inputs of the specification the conversion gives
  \<open>e2-e4\<close> for \<open>e2e4\<close>, \<open>e7-e8=Q\<close> for \<open>e7e8q\<close> and the empty string for the empty string.
  For every input made of ASCII characters, a move token or not, it returns the empty
  string exactly when the input is shorter than four characters; otherwise it returns the
  first two characters, a hyphen, the next two characters and, when more follow, an equals
  sign and the rest with each letter a to z replaced by its capital and every other
  character kept. It never throws. Inputs with characters outside ASCII are outside this
  statement.
\<close>

theorem uciToAlgebraic_display_form:
  "uciToAlgebraic ''e2e4'' = ''e2-e4'' \<and> uciToAlgebraic ''e7e8q'' = ''e7-e8=Q''
     \<and> uciToAlgebraic '''' = ''''
     \<and> (isAscii u \<longrightarrow>
          (uciToAlgebraic u = []) = (length u < 4)
          \<and> uciToAlgebraic u =
              (if length u < 4 then []
               else take 2 u @ ''-'' @ take 2 (drop 2 u) @
                    (if length u > 4
                     then ''='' @
                       map (\<lambda>c. case map_of (zip ''abcdefghijklmnopqrstuvwxyz''
                                                  ''ABCDEFGHIJKLMNOPQRSTUVWXYZ'') c of
                                  None \<Rightarrow> c | Some d \<Rightarrow> d) (drop 4 u)
                     else [])))"
proof -
  have "toUpperCase s =
      map (\<lambda>c. case map_of (zip ''abcdefghijklmnopqrstuvwxyz''
                                 ''ABCDEFGHIJKLMNOPQRSTUVWXYZ'') c of
                 None \<Rightarrow> c | Some d \<Rightarrow> d) s" for s
    unfolding toUpperCase_def using toUpperChar_table by (intro map_cong refl)
  then show ?thesis
    using uciToAlgebraic_examples uciToAlgebraic_empty_iff [of u] uciToAlgebraic_shape [of u]
    by simp
qed

theorem uciToAlgebraic_display_form_witness:
  "isAscii ''a7a8n'' \<and> uciToAlgebraic ''a7a8n'' = ''a7-a8=N''
     \<and> isAscii ''e2e4xx'' \<and> uciToAlgebraic ''e2e4xx'' = ''e2-e4=XX''
     \<and> isAscii ''e2e'' \<and> uciToAlgebraic ''e2e'' = []"
  using uciToAlgebraic_display_form [of "''a7a8n''"] uciToAlgebraic_display_form [of "''e2e4xx''"]
    uciToAlgebraic_display_form [of "''e2e''"]
  by (simp add: isAscii_def)

section \<open>Properties of the visualization trainer\<close>

lemma notified_append: "notified (xs @ ys) = notified xs @ notified ys"
  by (induction xs rule: notified.induct) auto

lemma notified_calls:
  "notified (map (\<lambda>cb. CallbackCalled cb s) cbs) = map (\<lambda>cb. (cb, s)) cbs"
  by (induction cbs) auto

lemma setMode_same: "setMode (currentMode t) t = t"
  by (simp add: setMode_def)

lemma notified_clearMemoryTimer: "notified (events (clearMemoryTimer t)) = notified (events t)"
  by (simp add: clearMemoryTimer_def notified_append split: option.splits)

lemma notified_startMemoryTimer: "notified (events (startMemoryTimer t)) = notified (events t)"
  by (simp add: startMemoryTimer_def notified_append split: option.splits)

lemma events_updateBoardMode: "events (updateBoardMode s t) = events t"
  by (simp add: updateBoardMode_def Let_def split: option.splits)

lemma fields_clearMemoryTimer:
  "currentMode (clearMemoryTimer t) = currentMode t"
  "settings (clearMemoryTimer t) = settings t"
  "callbacks (clearMemoryTimer t) = callbacks t"
  by (simp_all add: clearMemoryTimer_def split: option.splits)

lemma fields_startMemoryTimer:
  "currentMode (startMemoryTimer t) = currentMode t"
  "settings (startMemoryTimer t) = settings t"
  "callbacks (startMemoryTimer t) = callbacks t"
  by (simp_all add: startMemoryTimer_def split: option.splits)

lemma fields_updateBoardMode:
  "currentMode (updateBoardMode s t) = currentMode t"
  "settings (updateBoardMode s t) = settings t"
  "callbacks (updateBoardMode s t) = callbacks t"
  by (simp_all add: updateBoardMode_def Let_def split: option.splits)

lemma fields_notifyListeners:
  "currentMode (notifyListeners t) = currentMode t"
  "settings (notifyListeners t) = settings t"
  "callbacks (notifyListeners t) = callbacks t"
  by (simp_all add: notifyListeners_def)

lemma setMode_other:
  assumes "currentMode t \<noteq> m"
  shows "currentMode (setMode m t) = m \<and> settings (setMode m t) = (settings t)\<lparr>mode := m\<rparr>
     \<and> callbacks (setMode m t) = callbacks t
     \<and> notified (events (setMode m t)) =
         notified (events t) @ map (\<lambda>cb. (cb, (settings t)\<lparr>mode := m\<rparr>)) (callbacks t)"
  using assms
  by (simp add: setMode_def Let_def fields_clearMemoryTimer fields_startMemoryTimer
      fields_updateBoardMode fields_notifyListeners notified_startMemoryTimer
      events_updateBoardMode notifyListeners_def getSettings_def notified_append
      notified_calls notified_clearMemoryTimer)

text \<open>
  C9. Setting the mode that is already current changes nothing: the trainer, its settings,
  its timer and the trace of calls and timer operations are the same afterwards. Setting a
  different mode makes it the current mode and the mode of the settings (the other settings
  stay), and calls every subscribed callback once, in the order of subscription, each
  with the updated settings.
\<close>

theorem setMode_noop_or_notify:
  "setMode (currentMode t) t = t
     \<and> (currentMode t \<noteq> m \<longrightarrow>
          currentMode (setMode m t) = m
          \<and> settings (setMode m t) = (settings t)\<lparr>mode := m\<rparr>
          \<and> callbacks (setMode m t) = callbacks t
          \<and> notified (events (setMode m t)) =
              notified (events t) @ map (\<lambda>cb. (cb, (settings t)\<lparr>mode := m\<rparr>)) (callbacks t))"
  using setMode_same [of t] setMode_other [of t m] by simp

theorem setMode_noop_or_notify_witness:
  "currentMode demoTrainer \<noteq> memory
     \<and> currentMode (setMode memory demoTrainer) = memory
     \<and> mode (settings (setMode memory demoTrainer)) = memory
     \<and> notified (events (setMode memory demoTrainer)) =
         [(3, \<lparr>mode = memory, showMoves = True, showTargets = True, memoryTime = Some 5000\<rparr>),
          (7, \<lparr>mode = memory, showMoves = True, showTargets = True, memoryTime = Some 5000\<rparr>)]
     \<and> setMode standard demoTrainer = demoTrainer"
  using setMode_noop_or_notify [of demoTrainer memory]
  by (simp add: demoTrainer_def subscribe_def newVisualizationTrainer_def setMode_def)

lemma cycleMode_step:
  "currentMode (cycleMode t) =
     (case currentMode t of
        standard \<Rightarrow> minimal | minimal \<Rightarrow> checkers | checkers \<Rightarrow> monochrome
      | monochrome \<Rightarrow> invisible | invisible \<Rightarrow> memory | memory \<Rightarrow> blindfold
      | blindfold \<Rightarrow> standard)"
proof -
  have "currentMode (setMode m t) = m" for m
    using setMode_other [of t m] setMode_same [of t] by (cases "currentMode t = m") auto
  then show ?thesis
    by (cases "currentMode t") (simp_all add: cycleMode_def modes_def indexOf_def Let_def)
qed

lemma cycleMode_iterate:
  "currentMode ((cycleMode ^^ n) t) =
     ((\<lambda>m. case m of
          standard \<Rightarrow> minimal | minimal \<Rightarrow> checkers | checkers \<Rightarrow> monochrome
        | monochrome \<Rightarrow> invisible | invisible \<Rightarrow> memory | memory \<Rightarrow> blindfold
        | blindfold \<Rightarrow> standard) ^^ n) (currentMode t)"
  by (induction n) (simp_all add: cycleMode_step)

text \<open>
  C10. \<open>cycleMode\<close> moves the current mode to the next one in the order standard, minimal,
  checkers, monochrome, invisible, memory, blindfold, and from blindfold back to standard;
  seven applications bring the current mode back to where it started.
\<close>

theorem cycleMode_successor_and_period:
  "currentMode (cycleMode t) =
     (case currentMode t of
        standard \<Rightarrow> minimal | minimal \<Rightarrow> checkers | checkers \<Rightarrow> monochrome
      | monochrome \<Rightarrow> invisible | invisible \<Rightarrow> memory | memory \<Rightarrow> blindfold
      | blindfold \<Rightarrow> standard)
     \<and> currentMode ((cycleMode ^^ 7) t) = currentMode t"
proof
  show "currentMode (cycleMode t) =
     (case currentMode t of
        standard \<Rightarrow> minimal | minimal \<Rightarrow> checkers | checkers \<Rightarrow> monochrome
      | monochrome \<Rightarrow> invisible | invisible \<Rightarrow> memory | memory \<Rightarrow> blindfold
      | blindfold \<Rightarrow> standard)"
    by (rule cycleMode_step)
  show "currentMode ((cycleMode ^^ 7) t) = currentMode t"
    unfolding cycleMode_iterate by (cases "currentMode t") (simp_all add: eval_nat_numeral)
qed

section \<open>Properties of the game controller\<close>

lemmas demo_defs =
  demoRules_def demoEnv_def demoGame_def demoState_def demoParseFen_def demoParseUci_def
  substr_def moveTokens_def splitSpace_def

lemmas ctrl_defs =
  newGameCtrl_def onUpdate_def initialPosition_def afterUpdate_def speakMove_def
  chessgroundConfig_def playing_def Let_def

subsection \<open>What one update does\<close>

lemma playAll_append:
  "playAll R p (xs @ ys) =
     (case playAll R p xs of (q, None) \<Rightarrow> playAll R q ys | (q, Some e) \<Rightarrow> (q, Some e))"
  by (induction xs arbitrary: p) (auto split: sum.splits)

lemma playAll_bad:
  assumes "playAll R p0 pre = (p, None)" and "play R p (parseUci R t) = Inl e"
  shows "playAll R p0 (pre @ t # post) = (p, Some e)"
  using assms by (simp add: playAll_append)

lemma spokenMoves_append: "spokenMoves (xs @ ys) = spokenMoves xs @ spokenMoves ys"
  by (induction xs rule: spokenMoves.induct) auto

lemma afterUpdate_ctrl: "ctrl (afterUpdate r) = ctrl r" "thrown (afterUpdate r) = thrown r"
  by (simp_all add: afterUpdate_def split: option.splits)

lemma afterUpdate_spoken: "spokenMoves (effects (afterUpdate r)) = spokenMoves (effects r)"
  by (simp add: afterUpdate_def spokenMoves_append split: option.splits)

lemma afterUpdate_thrown_effects: "thrown r \<noteq> None \<Longrightarrow> effects (afterUpdate r) = effects r"
  by (auto simp add: afterUpdate_def split: option.splits)

lemma onUpdate_pov: "pov (ctrl (onUpdate R env now c)) = pov c"
  by (simp add: onUpdate_def Let_def split: sum.splits prod.splits option.splits)

lemma onUpdate_lastMoveCount:
  "lastMoveCount (ctrl (onUpdate R env now c)) =
     (case initialPosition R (initialFen (game c)) of
        Inl e \<Rightarrow> lastMoveCount c
      | Inr p0 \<Rightarrow> max (lastMoveCount c) (length (moveTokens (moves (state (game c))))))"
  by (simp add: onUpdate_def Let_def split: sum.splits prod.splits option.splits)

lemma onUpdate_spoken:
  "spokenMoves (effects (onUpdate R env now c)) =
     (case initialPosition R (initialFen (game c)) of
        Inl e \<Rightarrow> []
      | Inr p0 \<Rightarrow>
          if lastMoveCount c < length (moveTokens (moves (state (game c)))) \<and> speechSynthesis env
          then [(uciToAlgebraic (last (moveTokens (moves (state (game c))))),
                 if length (moveTokens (moves (state (game c)))) mod 2 = 1 then White else Black)]
          else [])"
  by (auto simp add: onUpdate_def Let_def speakMove_def last_conv_nth
      split: sum.splits prod.splits option.splits)

lemma onUpdate_throws:
  assumes "initialPosition R (initialFen (game c)) = Inr p0"
    and "playAll R p0 (moveTokens (moves (state (game c)))) = (p, Some e)"
  shows "thrown (onUpdate R env now c) = Some e"
    and "chess (ctrl (onUpdate R env now c)) = p"
    and "game (ctrl (onUpdate R env now c)) = game c"
    and "ground (ctrl (onUpdate R env now c)) = ground c"
    and "lastMove (ctrl (onUpdate R env now c)) = lastMove c"
    and "lastUpdateAt (ctrl (onUpdate R env now c)) = lastUpdateAt c"
  using assms by (simp_all add: onUpdate_def Let_def)

lemma onUpdate_returns:
  assumes "initialPosition R (initialFen (game c)) = Inr p0"
    and "playAll R p0 (moveTokens (moves (state (game c)))) = (p, None)"
  shows "thrown (onUpdate R env now c) = None"
    and "chess (ctrl (onUpdate R env now c)) = p"
    and "game (ctrl (onUpdate R env now c)) = game c"
    and "lastUpdateAt (ctrl (onUpdate R env now c)) = now"
  using assms by (simp_all add: onUpdate_def Let_def split: option.splits)

lemma onUpdate_no_redraw: "Redraw \<notin> set (effects (onUpdate R env now c))"
  by (simp add: onUpdate_def Let_def speakMove_def split: sum.splits prod.splits option.splits)

lemma handle_pov: "pov (ctrl (handle R env now c msg)) = pov c"
  by (cases msg) (simp_all add: afterUpdate_ctrl onUpdate_pov)

lemma newGameCtrl_pov:
  "pov (ctrl (newGameCtrl R env now g)) = (if playerId (black g) = me env then Black else White)"
  by (simp add: newGameCtrl_def Let_def onUpdate_pov split: option.splits)

lemma handle_lastMoveCount_mono:
  "lastMoveCount c \<le> lastMoveCount (ctrl (handle R env now c msg))"
  by (cases msg) (simp_all add: afterUpdate_ctrl onUpdate_lastMoveCount split: sum.splits)

lemma handle_spoken_new:
  "length (spokenMoves (effects (handle R env now c msg))) \<le> 1"
  "spokenMoves (effects (handle R env now c msg)) \<noteq> [] \<Longrightarrow>
     lastMoveCount c < lastMoveCount (ctrl (handle R env now c msg))"
  by (cases msg; simp add: afterUpdate_ctrl afterUpdate_spoken onUpdate_lastMoveCount
      onUpdate_spoken split: sum.splits if_splits)+

lemma feed_pov: "pov (feed R env c ms) = pov c"
  unfolding feed_def by (induction ms arbitrary: c) (auto simp add: handle_pov)

lemma feed_lastMoveCount_mono: "lastMoveCount c \<le> lastMoveCount (feed R env c ms)"
  unfolding feed_def
proof (induction ms arbitrary: c)
  case Nil
  then show ?case by simp
next
  case (Cons a ms)
  obtain now msg where a: "a = (now, msg)" by (cases a)
  have "lastMoveCount c \<le> lastMoveCount (ctrl (handle R env now c msg))"
    by (rule handle_lastMoveCount_mono)
  also have "\<dots> \<le> lastMoveCount
      (foldl (\<lambda>c' (now, msg). ctrl (handle R env now c' msg)) (ctrl (handle R env now c msg)) ms)"
    by (rule Cons.IH)
  finally show ?case by (simp add: a)
qed

lemma demoCtrl_e2e4:
  "demoCtrl ''e2e4'' =
     \<lparr>game = demoGame ''startpos'' ''e2e4'', pov = White, chess = (Black, [''e2e4'']),
      lastMove = Some (''e2'', ''e4''), lastUpdateAt = 0, ground = None, lastMoveCount = 1\<rparr>"
  by (simp add: demoCtrl_def demo_defs ctrl_defs)

subsection \<open>A token that is no move, and a move that is not legal\<close>

text \<open>
  The controller was opened on the history \<open>e2e4\<close>. An update with the moves
  \<open>e2e4 e7e5 zz\<close> throws at the token \<open>zz\<close>, which is no move. The controller is not
  rolled back: it holds the message as its state, its watermark is 3, and its position is
  no longer the one it had but the one after \<open>e2e4 e7e5\<close>, which is the position that
  replaying the list without the bad token gives. An update with the moves
  \<open>e2e4 e7e5 g1g3\<close> does not throw at all: \<open>g1g3\<close> parses, the controller hands it to the
  rules engine without asking whether it is legal (a knight cannot go from g1 to g3), and
  the position with that move applied becomes the controller's position.
\<close>

theorem bad_token_partial_position_or_applied:
  "thrown (handle demoRules demoEnv 1 (demoCtrl ''e2e4'')
             (gameState (demoState ''e2e4 e7e5 zz''))) = Some (Thrown ''TypeError'')
   \<and> playAll demoRules (White, []) [''e2e4'', ''e7e5''] = ((White, [''e2e4'', ''e7e5'']), None)
   \<and> chess (ctrl (handle demoRules demoEnv 1 (demoCtrl ''e2e4'')
                    (gameState (demoState ''e2e4 e7e5 zz'')))) = (White, [''e2e4'', ''e7e5''])
   \<and> chess (demoCtrl ''e2e4'') = (Black, [''e2e4''])
   \<and> moves (state (game (ctrl (handle demoRules demoEnv 1 (demoCtrl ''e2e4'')
                                  (gameState (demoState ''e2e4 e7e5 zz'')))))) = ''e2e4 e7e5 zz''
   \<and> lastMoveCount (ctrl (handle demoRules demoEnv 1 (demoCtrl ''e2e4'')
                            (gameState (demoState ''e2e4 e7e5 zz'')))) = 3
   \<and> parseUci demoRules ''g1g3'' = Some ''g1g3''
   \<and> thrown (handle demoRules demoEnv 1 (demoCtrl ''e2e4'')
               (gameState (demoState ''e2e4 e7e5 g1g3''))) = None
   \<and> chess (ctrl (handle demoRules demoEnv 1 (demoCtrl ''e2e4'')
                    (gameState (demoState ''e2e4 e7e5 g1g3'')))) =
       (Black, [''e2e4'', ''e7e5'', ''g1g3''])"
  by (simp add: demoCtrl_e2e4) (simp add: demo_defs ctrl_defs)

text \<open>
  C1, as the code has it. Take a full-state or incremental-state message whose initial
  position can be set up. When its moves list has a token that does not parse as a move,
  the rules engine is handed no move in the position reached by the tokens before it; when
  the engine throws on that, handling the message throws that same error to the caller and
  no redraw is requested; the displayed board, the last-move marker and the time of the
  last update keep their values. The controller is not rolled back: it is left with the
  message stored as its game and with the position reached just before the bad token, and
  neither that token nor any after it is applied. A token that parses is handed to the
  rules engine as it is: the controller makes no legality check of its own, and whenever
  the replay returns, the position it returns, legal or not, becomes the controller's
  position and nothing is thrown.
\<close>

theorem unparsed_token_throws_parsed_token_unchecked:
  assumes msg: "msg = gameFull g \<and> g' = g \<or> msg = gameState s \<and> g' = (game c)\<lparr>state := s\<rparr>"
    and init: "initialPosition R (initialFen g') = Inr p0"
  shows "(moveTokens (moves (state g')) = pre @ t # post
            \<and> playAll R p0 pre = (p, None)
            \<and> parseUci R t = None
            \<and> play R p None = Inl e
          \<longrightarrow> thrown (handle R env now c msg) = Some e
              \<and> Redraw \<notin> set (effects (handle R env now c msg))
              \<and> ground (ctrl (handle R env now c msg)) = ground c
              \<and> lastMove (ctrl (handle R env now c msg)) = lastMove c
              \<and> lastUpdateAt (ctrl (handle R env now c msg)) = lastUpdateAt c
              \<and> game (ctrl (handle R env now c msg)) = g'
              \<and> chess (ctrl (handle R env now c msg)) = p)
       \<and> (playAll R p0 (moveTokens (moves (state g'))) = (p', None)
          \<longrightarrow> thrown (handle R env now c msg) = None
              \<and> game (ctrl (handle R env now c msg)) = g'
              \<and> chess (ctrl (handle R env now c msg)) = p'
              \<and> lastUpdateAt (ctrl (handle R env now c msg)) = now)"
proof -
  define c' where "c' = c\<lparr>game := g'\<rparr>"
  have h: "handle R env now c msg = afterUpdate (onUpdate R env now c')"
    using msg by (auto simp add: c'_def)
  have i: "initialPosition R (initialFen (game c')) = Inr p0"
    using init by (simp add: c'_def)
  have a: "thrown (handle R env now c msg) = Some e
      \<and> Redraw \<notin> set (effects (handle R env now c msg))
      \<and> ground (ctrl (handle R env now c msg)) = ground c
      \<and> lastMove (ctrl (handle R env now c msg)) = lastMove c
      \<and> lastUpdateAt (ctrl (handle R env now c msg)) = lastUpdateAt c
      \<and> game (ctrl (handle R env now c msg)) = g'
      \<and> chess (ctrl (handle R env now c msg)) = p"
    if toks: "moveTokens (moves (state g')) = pre @ t # post"
      and reached: "playAll R p0 pre = (p, None)"
      and unparsed: "parseUci R t = None"
      and throws: "play R p None = Inl e"
  proof -
    have "play R p (parseUci R t) = Inl e"
      using unparsed throws by simp
    then have "playAll R p0 (moveTokens (moves (state (game c')))) = (p, Some e)"
      using playAll_bad [OF reached] toks by (simp add: c'_def)
    note f = onUpdate_throws [OF i this, of env now]
    have "effects (afterUpdate (onUpdate R env now c')) = effects (onUpdate R env now c')"
      using f(1) by (simp add: afterUpdate_thrown_effects)
    then show ?thesis
      unfolding h using f onUpdate_no_redraw [of R env now c']
      by (simp add: afterUpdate_ctrl c'_def)
  qed
  have b: "thrown (handle R env now c msg) = None
      \<and> game (ctrl (handle R env now c msg)) = g'
      \<and> chess (ctrl (handle R env now c msg)) = p'
      \<and> lastUpdateAt (ctrl (handle R env now c msg)) = now"
    if "playAll R p0 (moveTokens (moves (state g'))) = (p', None)"
  proof -
    have "playAll R p0 (moveTokens (moves (state (game c')))) = (p', None)"
      using that by (simp add: c'_def)
    note f = onUpdate_returns [OF i this, of env now]
    show ?thesis
      unfolding h using f by (simp add: afterUpdate_ctrl c'_def)
  qed
  show ?thesis
    using a b by blast
qed

theorem unparsed_token_throws_parsed_token_unchecked_witness:
  "parseUci demoRules ''zz'' = None
   \<and> play demoRules (Black, [''e2e4'']) None = Inl (Thrown ''TypeError'')
   \<and> thrown (handle demoRules demoEnv 1 (demoCtrl ''e2e4'')
               (gameState (demoState ''e2e4 zz e7e5''))) = Some (Thrown ''TypeError'')
   \<and> chess (ctrl (handle demoRules demoEnv 1 (demoCtrl ''e2e4'')
                    (gameState (demoState ''e2e4 zz e7e5'')))) = (Black, [''e2e4''])
   \<and> playAll demoRules (White, []) (moveTokens ''e2e4 e7e5 g1g3'') =
       ((Black, [''e2e4'', ''e7e5'', ''g1g3'']), None)
   \<and> thrown (handle demoRules demoEnv 1 (demoCtrl ''e2e4'')
               (gameState (demoState ''e2e4 e7e5 g1g3''))) = None
   \<and> chess (ctrl (handle demoRules demoEnv 1 (demoCtrl ''e2e4'')
                    (gameState (demoState ''e2e4 e7e5 g1g3'')))) =
       (Black, [''e2e4'', ''e7e5'', ''g1g3''])"
proof -
  have m: "gameState (demoState ms) = gameFull g
        \<and> (game (demoCtrl ''e2e4''))\<lparr>state := demoState ms\<rparr> = g
     \<or> gameState (demoState ms) = gameState (demoState ms)
        \<and> (game (demoCtrl ''e2e4''))\<lparr>state := demoState ms\<rparr> =
          (game (demoCtrl ''e2e4''))\<lparr>state := demoState ms\<rparr>" for ms g
    by simp
  have i: "initialPosition demoRules
       (initialFen ((game (demoCtrl ''e2e4''))\<lparr>state := demoState ms\<rparr>)) = Inr (White, [])" for ms
    by (simp add: demoCtrl_e2e4) (simp add: demo_defs ctrl_defs)
  have 1: "moveTokens (moves (state
       ((game (demoCtrl ''e2e4''))\<lparr>state := demoState ''e2e4 zz e7e5''\<rparr>))) =
       [''e2e4''] @ ''zz'' # [''e7e5'']"
    by (simp add: demo_defs)
  have 2: "playAll demoRules (White, []) [''e2e4''] = ((Black, [''e2e4'']), None)"
    by (simp add: demo_defs)
  have 3: "parseUci demoRules ''zz'' = None"
    by (simp add: demo_defs)
  have 4: "play demoRules (Black, [''e2e4'']) None = Inl (Thrown ''TypeError'')"
    by (simp add: demo_defs)
  have 5: "playAll demoRules (White, []) (moveTokens (moves (state
       ((game (demoCtrl ''e2e4''))\<lparr>state := demoState ''e2e4 e7e5 g1g3''\<rparr>)))) =
       ((Black, [''e2e4'', ''e7e5'', ''g1g3'']), None)"
    by (simp add: demo_defs)
  have 6: "playAll demoRules (White, []) (moveTokens ''e2e4 e7e5 g1g3'') =
       ((Black, [''e2e4'', ''e7e5'', ''g1g3'']), None)"
    by (simp add: demo_defs)
  show ?thesis
    using unparsed_token_throws_parsed_token_unchecked
        [OF m [of "''e2e4 zz e7e5''"] i [of "''e2e4 zz e7e5''"],
        where pre = "[''e2e4'']" and t = "''zz''"
        and post = "[''e7e5'']" and p = "(Black, [''e2e4''])" and e = "Thrown ''TypeError''"
        and env = demoEnv and now = 1]
      unparsed_token_throws_parsed_token_unchecked
        [OF m [of "''e2e4 e7e5 g1g3''"] i [of "''e2e4 e7e5 g1g3''"],
        where p' = "(Black, [''e2e4'', ''e7e5'', ''g1g3''])" and env = demoEnv and now = 1]
      1 2 3 4 5 6
    by simp
qed

subsection \<open>A moves list shorter than one seen before\<close>

text \<open>
  The controller was opened on a game with two moves, so it has processed a moves list of
  length 2. An incremental-state message with one move is then handled without any error:
  the message becomes the state, the position is replayed from it, and a redraw is
  requested.
\<close>

theorem shorter_moves_list_accepted:
  "lastMoveCount (demoCtrl ''e2e4 e7e5'') = 2
   \<and> length (moveTokens (moves (demoState ''e2e4''))) = 1
   \<and> thrown (handle demoRules demoEnv 1 (demoCtrl ''e2e4 e7e5'')
               (gameState (demoState ''e2e4''))) = None
   \<and> effects (handle demoRules demoEnv 1 (demoCtrl ''e2e4 e7e5'')
                (gameState (demoState ''e2e4''))) = [Redraw]
   \<and> state (game (ctrl (handle demoRules demoEnv 1 (demoCtrl ''e2e4 e7e5'')
                          (gameState (demoState ''e2e4''))))) = demoState ''e2e4''
   \<and> chess (ctrl (handle demoRules demoEnv 1 (demoCtrl ''e2e4 e7e5'')
                    (gameState (demoState ''e2e4'')))) = (Black, [''e2e4''])"
  by (simp add: demoCtrl_def demo_defs ctrl_defs)

text \<open>
  C2, as the code has it. The controller compares the length of a moves list with nothing
  but the watermark, and only to decide whether to speak. An incremental-state message
  whose moves replay without error is accepted whatever the length of its list, also when
  it is shorter than one processed before: the message becomes the state, the replayed
  position the position, and no error is raised. When the list is not longer than the
  watermark, the watermark keeps its value and nothing is spoken.
\<close>

theorem gameState_accepted_whatever_length:
  assumes init: "initialPosition R (initialFen (game c)) = Inr p0"
    and replay: "playAll R p0 (moveTokens (moves s)) = (p, None)"
  shows "thrown (handle R env now c (gameState s)) = None
     \<and> state (game (ctrl (handle R env now c (gameState s)))) = s
     \<and> chess (ctrl (handle R env now c (gameState s))) = p
     \<and> lastUpdateAt (ctrl (handle R env now c (gameState s))) = now
     \<and> lastMoveCount (ctrl (handle R env now c (gameState s))) =
         max (lastMoveCount c) (length (moveTokens (moves s)))
     \<and> (length (moveTokens (moves s)) \<le> lastMoveCount c \<longrightarrow>
          spokenMoves (effects (handle R env now c (gameState s))) = [])"
proof -
  define c' where "c' = c\<lparr>game := (game c)\<lparr>state := s\<rparr>\<rparr>"
  have i: "initialPosition R (initialFen (game c')) = Inr p0"
    and q: "playAll R p0 (moveTokens (moves (state (game c')))) = (p, None)"
    using init replay by (simp_all add: c'_def)
  note f = onUpdate_returns [OF i q, of env now]
  show ?thesis
    using f i
    by (simp add: afterUpdate_ctrl afterUpdate_spoken onUpdate_lastMoveCount onUpdate_spoken
        c'_def [symmetric])
       (simp add: c'_def)
qed

theorem gameState_accepted_whatever_length_witness:
  "length (moveTokens (moves (demoState ''e2e4''))) \<le> lastMoveCount (demoCtrl ''e2e4 e7e5'')
   \<and> thrown (handle demoRules demoEnv 1 (demoCtrl ''e2e4 e7e5'')
               (gameState (demoState ''e2e4''))) = None
   \<and> moves (state (game (ctrl (handle demoRules demoEnv 1 (demoCtrl ''e2e4 e7e5'')
                                  (gameState (demoState ''e2e4'')))))) = ''e2e4''
   \<and> lastMoveCount (ctrl (handle demoRules demoEnv 1 (demoCtrl ''e2e4 e7e5'')
                            (gameState (demoState ''e2e4'')))) = 2
   \<and> spokenMoves (effects (handle demoRules demoEnv 1 (demoCtrl ''e2e4 e7e5'')
                             (gameState (demoState ''e2e4'')))) = []"
proof -
  have 1: "initialPosition demoRules (initialFen (game (demoCtrl ''e2e4 e7e5''))) =
       Inr (White, [])"
    by (simp add: demoCtrl_def demo_defs ctrl_defs)
  have 2: "playAll demoRules (White, []) (moveTokens (moves (demoState ''e2e4''))) =
       ((Black, [''e2e4'']), None)"
    by (simp add: demo_defs)
  have 3: "lastMoveCount (demoCtrl ''e2e4 e7e5'') = 2"
    by (simp add: demoCtrl_def demo_defs ctrl_defs)
  show ?thesis
    using gameState_accepted_whatever_length [OF 1 2, of demoEnv 1] 3 by (simp add: demo_defs)
qed

subsection \<open>The watermark\<close>

text \<open>
  Opening a game whose history already holds \<open>e2e4 e7e5\<close> speaks the last of these moves:
  the watermark starts at 0, and the first update finds two moves above it.
\<close>

theorem open_speaks_history_move:
  "moveTokens (moves (state (demoGame ''startpos'' ''e2e4 e7e5''))) = [''e2e4'', ''e7e5'']
   \<and> thrown (newGameCtrl demoRules demoEnv 0 (demoGame ''startpos'' ''e2e4 e7e5'')) = None
   \<and> spokenMoves (effects (newGameCtrl demoRules demoEnv 0 (demoGame ''startpos'' ''e2e4 e7e5'')))
       = [(''e7-e5'', Black)]"
  by (simp add: demo_defs ctrl_defs uciToAlgebraic_def substring_def)

text \<open>
  C3, as the code has it. When a game is opened (and its initial position can be set up),
  the watermark becomes the number of moves in the history, and at most one move is
  spoken: the last move of the history when the history is not empty and the browser can
  speak, none otherwise. Afterwards a message speaks at most one move, and only when it
  raises the watermark, that is, when its moves list is longer than the watermark. The
  watermark never decreases, over one message or over any list of messages.
\<close>

theorem watermark_seeded_and_monotone:
  assumes "initialPosition R (initialFen g) = Inr p0"
  shows "lastMoveCount (ctrl (newGameCtrl R env now g)) = length (moveTokens (moves (state g)))
    \<and> spokenMoves (effects (newGameCtrl R env now g)) =
        (if moveTokens (moves (state g)) \<noteq> [] \<and> speechSynthesis env
         then [(uciToAlgebraic (last (moveTokens (moves (state g)))),
                if length (moveTokens (moves (state g))) mod 2 = 1 then White else Black)]
         else [])
    \<and> lastMoveCount c \<le> lastMoveCount (ctrl (handle R env now' c msg))
    \<and> lastMoveCount c \<le> lastMoveCount (feed R env c ms)
    \<and> length (spokenMoves (effects (handle R env now' c msg))) \<le> 1
    \<and> (spokenMoves (effects (handle R env now' c msg)) \<noteq> [] \<longrightarrow>
         lastMoveCount c < lastMoveCount (ctrl (handle R env now' c msg)))"
  using assms handle_lastMoveCount_mono [of c R env now' msg]
    handle_spoken_new [of R env now' c msg] feed_lastMoveCount_mono [of c R env ms]
  by (simp add: newGameCtrl_def Let_def onUpdate_lastMoveCount onUpdate_spoken
      spokenMoves_append split: option.splits)

theorem watermark_seeded_and_monotone_witness:
  "initialPosition demoRules (initialFen (demoGame ''startpos'' ''e2e4 e7e5'')) = Inr (White, [])
   \<and> lastMoveCount (ctrl (newGameCtrl demoRules demoEnv 0 (demoGame ''startpos'' ''e2e4 e7e5''))) = 2
   \<and> spokenMoves (effects (handle demoRules demoEnv 1 (demoCtrl ''e2e4 e7e5'')
                             (gameState (demoState ''e2e4 e7e5 g1f3'')))) = [(''g1-f3'', White)]
   \<and> lastMoveCount (demoCtrl ''e2e4 e7e5'') <
       lastMoveCount (ctrl (handle demoRules demoEnv 1 (demoCtrl ''e2e4 e7e5'')
                             (gameState (demoState ''e2e4 e7e5 g1f3''))))"
proof -
  have 1: "initialPosition demoRules (initialFen (demoGame ''startpos'' ''e2e4 e7e5'')) =
       Inr (White, [])"
    by (simp add: demo_defs ctrl_defs)
  have 2: "spokenMoves (effects (handle demoRules demoEnv 1 (demoCtrl ''e2e4 e7e5'')
                                  (gameState (demoState ''e2e4 e7e5 g1f3'')))) =
       [(''g1-f3'', White)]"
    by (simp add: demoCtrl_def demo_defs ctrl_defs uciToAlgebraic_def substring_def)
  show ?thesis
    using watermark_seeded_and_monotone [OF 1, where env = demoEnv and now = 0
        and c = "demoCtrl ''e2e4 e7e5''" and now' = 1
        and msg = "gameState (demoState ''e2e4 e7e5 g1f3'')"] 1 2
    by (simp add: demo_defs)
qed

subsection \<open>The point of view\<close>

text \<open>
  C4. The point of view is set when the controller is constructed: Black when the black
  player's identity equals the identity of the session's user, White otherwise. No
  message changes it, whatever its kind and whether or not handling it throws; so no list
  of messages does.
\<close>

theorem pov_fixed_at_construction:
  "pov (ctrl (newGameCtrl R env now g)) = (if playerId (black g) = me env then Black else White)
   \<and> pov (ctrl (handle R env now' c msg)) = pov c
   \<and> pov (feed R env c ms) = pov c"
  by (simp add: newGameCtrl_pov handle_pov feed_pov)

subsection \<open>Commands to the remote endpoint\<close>

text \<open>
  C5. Submitting a move leaves the game, its state, the position, the point of view, the
  last-move marker, the watermark and the time of the last update as they are; of the
  displayed board it changes the turn colour only, to the opponent's, and it sends one
  request, the move, to the endpoint. Resigning leaves the whole controller as it is and
  sends one request, the resignation.
\<close>

theorem userMove_resign_frame:
  "game (ctrl (userMove orig dest c)) = game c
   \<and> chess (ctrl (userMove orig dest c)) = chess c
   \<and> pov (ctrl (userMove orig dest c)) = pov c
   \<and> lastMove (ctrl (userMove orig dest c)) = lastMove c
   \<and> lastMoveCount (ctrl (userMove orig dest c)) = lastMoveCount c
   \<and> lastUpdateAt (ctrl (userMove orig dest c)) = lastUpdateAt c
   \<and> ground (ctrl (userMove orig dest c)) =
       map_option (\<lambda>cg. cg\<lparr>turnColor := opposite (pov c)\<rparr>) (ground c)
   \<and> effects (userMove orig dest c) =
       [Post (''/api/board/game/'' @ gid (game c) @ ''/move/'' @ orig @ dest)]
   \<and> thrown (userMove orig dest c) = None
   \<and> ctrl (resign c) = c
   \<and> effects (resign c) = [Post (''/api/board/game/'' @ gid (game c) @ ''/resign'')]
   \<and> thrown (resign c) = None"
  by (simp add: userMove_def resign_def split: option.splits)

subsection \<open>Messages of another kind\<close>

text \<open>
  C6. A message that is neither a full state nor an incremental state is logged to the
  console and nothing else happens: the controller (game, state, position, watermark and
  every other field) is unchanged and nothing is thrown.
\<close>

theorem unknown_message_ignored:
  "ctrl (handle R env now c (otherMsg ty)) = c
   \<and> thrown (handle R env now c (otherMsg ty)) = None
   \<and> effects (handle R env now c (otherMsg ty)) =
       [ConsoleError (''Unknown message type: '' @ ty)]"
  by simp

subsection \<open>The side a spoken move is attributed to\<close>

lemma playAll_turn:
  assumes "\<forall>q m q'. play R q m = Inr q' \<longrightarrow> turn R q' = opposite (turn R q)"
    and "playAll R p0 us = (q, None)"
  shows "turn R q = (if even (length us) then turn R p0 else opposite (turn R p0))"
  using assms(2)
proof (induction us arbitrary: p0)
  case Nil
  then show ?case by simp
next
  case (Cons u us)
  then obtain p1 where p1: "play R p0 (parseUci R u) = Inr p1"
    and rest: "playAll R p1 us = (q, None)"
    by (auto split: sum.splits)
  have "turn R p1 = opposite (turn R p0)"
    using assms(1) p1 by blast
  moreover have "opposite (opposite x) = x" for x
    by (cases x) simp_all
  ultimately show ?case
    using Cons.IH [OF rest] by simp
qed

lemma getLastMove_color:
  "mvs \<noteq> [] \<Longrightarrow>
     map_option color (getLastMove mvs) = Some (if length mvs mod 2 = 1 then White else Black)"
  by (simp add: getLastMove_def Let_def)

text \<open>
  C8. For a non-empty list of moves, \<open>getLastMove\<close> gives White when the length of the list
  is odd and Black when it is even, and so does the controller for every move it speaks:
  the side depends on the length alone, not on the initial position. When the initial
  position has Black to move and the rules engine passes the turn with every move, the
  side spoken with the newest move is the opposite of the side that was to move when it
  was played.
\<close>

theorem spoken_side_by_parity:
  "(mvs \<noteq> [] \<longrightarrow>
      map_option color (getLastMove mvs) = Some (if length mvs mod 2 = 1 then White else Black))
   \<and> (\<forall>x \<in> set (spokenMoves (effects (onUpdate R env now c))).
        snd x = (if length (moveTokens (moves (state (game c)))) mod 2 = 1 then White else Black))
   \<and> ((\<forall>q m q'. play R q m = Inr q' \<longrightarrow> turn R q' = opposite (turn R q))
        \<and> initialPosition R (initialFen (game c)) = Inr p0
        \<and> turn R p0 = Black
        \<and> moveTokens (moves (state (game c))) = pre @ [t]
        \<and> playAll R p0 pre = (q, None)
        \<and> lastMoveCount c < length (pre @ [t])
        \<and> speechSynthesis env
      \<longrightarrow> spokenMoves (effects (onUpdate R env now c)) = [(uciToAlgebraic t, opposite (turn R q))])"
proof (intro conjI impI)
  assume "mvs \<noteq> []"
  then show "map_option color (getLastMove mvs) =
      Some (if length mvs mod 2 = 1 then White else Black)"
    by (rule getLastMove_color)
next
  show "\<forall>x \<in> set (spokenMoves (effects (onUpdate R env now c))).
        snd x = (if length (moveTokens (moves (state (game c)))) mod 2 = 1 then White else Black)"
    by (simp add: onUpdate_spoken split: sum.splits)
next
  assume h: "(\<forall>q m q'. play R q m = Inr q' \<longrightarrow> turn R q' = opposite (turn R q))
        \<and> initialPosition R (initialFen (game c)) = Inr p0
        \<and> turn R p0 = Black
        \<and> moveTokens (moves (state (game c))) = pre @ [t]
        \<and> playAll R p0 pre = (q, None)
        \<and> lastMoveCount c < length (pre @ [t])
        \<and> speechSynthesis env"
  then have tq: "turn R q = (if even (length pre) then Black else White)"
    using playAll_turn [of R p0 pre q] by simp
  show "spokenMoves (effects (onUpdate R env now c)) = [(uciToAlgebraic t, opposite (turn R q))]"
    using h tq by (simp add: onUpdate_spoken) presburger
qed

theorem spoken_side_by_parity_witness:
  "initialPosition demoRules (initialFen (game blackFirstCtrl)) = Inr (Black, [])
   \<and> turn demoRules (Black, []) = Black
   \<and> spokenMoves (effects (onUpdate demoRules demoEnv 1 blackFirstCtrl)) = [(''e7-e5'', White)]
   \<and> map_option color (getLastMove [''e7e5'']) = Some White"
proof -
  have 1: "\<forall>q m q'. play demoRules q m = Inr q' \<longrightarrow>
      turn demoRules q' = opposite (turn demoRules q)"
  proof (intro allI impI)
    fix q m q' assume "play demoRules q m = Inr q'"
    then show "turn demoRules q' = opposite (turn demoRules q)"
      by (cases m) (auto simp add: demoRules_def split: if_splits)
  qed
  have 2: "initialPosition demoRules (initialFen (game blackFirstCtrl)) = Inr (Black, [])"
    by (simp add: blackFirstCtrl_def blackFirstFen_def demo_defs ctrl_defs)
  have 3: "moveTokens (moves (state (game blackFirstCtrl))) = [] @ [''e7e5'']"
    by (simp add: blackFirstCtrl_def demo_defs)
  have 4: "lastMoveCount blackFirstCtrl = 0"
    by (simp add: blackFirstCtrl_def demoCtrl_def demo_defs ctrl_defs)
  have 5: "uciToAlgebraic ''e7e5'' = ''e7-e5''"
    by (simp add: uciToAlgebraic_def substring_def)
  show ?thesis
    using spoken_side_by_parity [of "[''e7e5'']" demoRules demoEnv 1 blackFirstCtrl
        "(Black, [])" "[]" "''e7e5''" "(Black, [])"] 1 2 3 4 5
    by (simp add: demoRules_def demoEnv_def)
qed

end
